theory Spec2Isabelle
  imports Main
begin

section \<open>The chat server: data model\<close>

text \<open>
  The development follows the server with subscriptions (the file that declares
  \<open>Subscription.message\<close>, \<open>existsUserInConv\<close>, \<open>haveUserAccessToConv\<close> and the
  \<open>PubSub\<close> instance). The earlier server, \<open>src/index.ts\<close>, has no subscriptions; its
  identity resolver, its table of gates and its \<open>serialize\<close> differ and are embedded under
  the same names with the suffix \<open>_index\<close>, for comparison.

  Errors are values: every \<open>throw\<close> and every rejected promise of the source is an
  \<open>Inl\<close> of the result.
\<close>

datatype error =
  TypeError                \<comment> \<open>a property read on \<open>null\<close>/\<open>undefined\<close>, a call of a non-function\<close>
  | JsonWebTokenError      \<comment> \<open>what \<open>verify\<close> of jsonwebtoken throws\<close>
  | NotAuthenticated       \<comment> \<open>\<open>new Error(`Not authenticated`)\<close> of \<open>src/index.ts\<close>\<close>
  | UserNotExists          \<comment> \<open>\<open>new Error(`User not exists`)\<close> of \<open>src/index.ts\<close>\<close>
  | NotAuthorised          \<comment> \<open>the rule engine's uniform rejection\<close>
  | StoreError             \<comment> \<open>a failed data-store call\<close>

record user =
  user_id :: string
  nickname :: string

record conversation =
  conversation_id :: string
  title :: string
  participants :: "string list"   \<comment> \<open>the ids of the connected users\<close>

record message =
  message_id :: nat
  body :: string
  author :: string
  message_conversation :: string

text \<open>The payload that \<open>sign\<close> puts into a token and \<open>verify\<close> gives back.\<close>

record jwt_payload =
  payload_id :: string
  payload_nickname :: string

subsection \<open>The data store\<close>

text \<open>
  The Prisma client (\<open>./generated/prisma-client\<close>) is generated code that is not among
  the source files. Its state is the three tables; the calls the server makes are
  modelled from the data-store contract of the spec (section 6).
\<close>

record prisma_state =
  users :: "user list"
  conversations :: "conversation list"
  messages :: "message list"

text \<open>
  Modelled from the spec: \<open>prisma.user({ id })\<close>, the contract's \<open>getUser(id)\<close>; the
  generated client is missing. A user that is not in the store is \<open>null\<close>.
\<close>

definition prisma_user :: "prisma_state \<Rightarrow> string \<Rightarrow> user option" where
  "prisma_user db i = find (\<lambda>u. user_id u = i) (users db)"

text \<open>
  Modelled from the spec: \<open>prisma.$exists.user({ id })\<close>, the contract's
  \<open>userExists(id)\<close>; the generated client is missing.
\<close>

definition prisma_exists_user :: "prisma_state \<Rightarrow> string \<Rightarrow> bool" where
  "prisma_exists_user db i = (prisma_user db i \<noteq> None)"

text \<open>
  Modelled from the spec: \<open>prisma.conversation({ id })\<close>, the read of one conversation
  with its participants (the contract's \<open>getConversationParticipants\<close>); the generated
  client is missing. A conversation that is not in the store is \<open>null\<close>.
\<close>

definition prisma_conversation :: "prisma_state \<Rightarrow> string \<Rightarrow> conversation option" where
  "prisma_conversation db c = find (\<lambda>k. conversation_id k = c) (conversations db)"

section \<open>Identity Resolver\<close>

text \<open>
  \<open>String.prototype.replace\<close> with a string pattern replaces the first occurrence of the
  pattern, wherever it stands.
\<close>

fun replace :: "string \<Rightarrow> string \<Rightarrow> string \<Rightarrow> string" where
  "replace pat rep [] = (if pat = [] then rep else [])"
| "replace pat rep (c # cs) =
     (if take (length pat) (c # cs) = pat then rep @ drop (length pat) (c # cs)
      else c # replace pat rep cs)"

text \<open>
  \<open>getUser\<close> of the server with subscriptions. The request is its \<open>get\<close> method, a
  lookup of a header by name; \<open>verify\<close> (jsonwebtoken) and the secret
  (\<open>process.env.APP_SECRET\<close>) are parameters: \<open>verify\<close> either throws or gives the
  payload. \<open>!authorization\<close> holds for \<open>undefined\<close> and for the empty string. There is no
  \<open>try\<close> around \<open>verify\<close>: what it throws, \<open>getUser\<close> throws.
\<close>

definition getUser ::
  "(string \<Rightarrow> string \<Rightarrow> error + jwt_payload) \<Rightarrow> string \<Rightarrow> prisma_state \<Rightarrow>
   (string \<Rightarrow> string option) \<Rightarrow> error + user option" where
  "getUser verify secret db req =
     (case req ''Authorization'' of
        None \<Rightarrow> Inr None
      | Some authorization \<Rightarrow>
          if authorization = [] then Inr None
          else
            let token = replace ''Bearer '' [] authorization in
            (case verify token secret of
               Inl e \<Rightarrow> Inl e
             | Inr payload \<Rightarrow>
                 let meIsExists = prisma_exists_user db (payload_id payload) in
                 if \<not> meIsExists then Inr None
                 else Inr (prisma_user db (payload_id payload))))"

text \<open>\<open>getUser\<close> of \<open>src/index.ts\<close>: the same steps, but every failure is thrown.\<close>

definition getUser_index ::
  "(string \<Rightarrow> string \<Rightarrow> error + jwt_payload) \<Rightarrow> string \<Rightarrow> prisma_state \<Rightarrow>
   (string \<Rightarrow> string option) \<Rightarrow> error + user option" where
  "getUser_index verify secret db req =
     (case req ''Authorization'' of
        None \<Rightarrow> Inl NotAuthenticated
      | Some authorization \<Rightarrow>
          if authorization = [] then Inl NotAuthenticated
          else
            let token = replace ''Bearer '' [] authorization in
            (case verify token secret of
               Inl e \<Rightarrow> Inl e
             | Inr payload \<Rightarrow>
                 let meIsExists = prisma_exists_user db (payload_id payload) in
                 if \<not> meIsExists then Inl UserNotExists
                 else Inr (prisma_user db (payload_id payload))))"


section \<open>Access rules\<close>

record args =
  arg_conversation :: string   \<comment> \<open>the argument \<open>conversation: ID!\<close>\<close>
  arg_body :: string           \<comment> \<open>the argument \<open>body: String!\<close>\<close>

text \<open>
  The Execution Context. Its \<open>prisma\<close> and \<open>pubsub\<close> fields are handles to the one data
  store and the one bus of the process, which the model passes as state; the identity
  is \<open>None\<close> for \<open>null\<close>.
\<close>

record "context" =
  ctx_user :: "user option"

text \<open>
  \<open>existsUserInConv\<close>: whether \<open>userId\<close> is the id of one of the participants. For a
  conversation that is not in the store, \<open>prisma.conversation({ id }).participants()\<close>
  gives \<open>null\<close>, as the lookup of the conversation does, and \<open>.some\<close> on \<open>null\<close> is a
  TypeError.
\<close>

definition existsUserInConv :: "prisma_state \<Rightarrow> string \<Rightarrow> string \<Rightarrow> error + bool" where
  "existsUserInConv db userId conversationId =
     (case prisma_conversation db conversationId of
        None \<Rightarrow> Inl TypeError
      | Some c \<Rightarrow> Inr (userId \<in> set (participants c)))"

text \<open>
  A rule is an atomic predicate over the arguments and the context (the function given to
  \<open>rule()\<close>, which may throw) or the \<open>and\<close> of two rules.
\<close>

datatype rule =
  Rule "args \<Rightarrow> context \<Rightarrow> prisma_state \<Rightarrow> error + bool"
  | And rule rule

text \<open>The function given to \<open>rule()\<close> for \<open>isAuthenticated\<close>: \<open>ctx.user != null\<close>.\<close>

definition isAuthenticated_fn :: "args \<Rightarrow> context \<Rightarrow> prisma_state \<Rightarrow> error + bool" where
  "isAuthenticated_fn a ctx db = Inr (ctx_user ctx \<noteq> None)"

definition isAuthenticated :: rule where
  "isAuthenticated = Rule isAuthenticated_fn"

text \<open>
  The function given to \<open>rule()\<close> for \<open>haveUserAccessToConv\<close>. \<open>user.id\<close> is read
  before \<open>existsUserInConv\<close> is called; on a \<open>null\<close> user the read is a TypeError.
\<close>

definition haveUserAccessToConv_fn :: "args \<Rightarrow> context \<Rightarrow> prisma_state \<Rightarrow> error + bool" where
  "haveUserAccessToConv_fn a ctx db =
     (case ctx_user ctx of
        None \<Rightarrow> Inl TypeError
      | Some u \<Rightarrow> existsUserInConv db (user_id u) (arg_conversation a))"

definition haveUserAccessToConv :: rule where
  "haveUserAccessToConv = Rule haveUserAccessToConv_fn"

text \<open>The table given to \<open>shield\<close>: type name, field name, rule.\<close>

definition permissions :: "(string \<times> (string \<times> rule) list) list" where
  "permissions =
     [(''Query'', [(''me'', isAuthenticated)]),
      (''Mutation'',
         [(''sendMessage'', And isAuthenticated haveUserAccessToConv),
          (''joinToConversation'', isAuthenticated)]),
      (''Subscription'', [(''message'', And isAuthenticated haveUserAccessToConv)]),
      (''User'', [(''conversations'', isAuthenticated), (''messages'', isAuthenticated)])]"

text \<open>The table of \<open>src/index.ts\<close>, which has neither subscriptions nor the membership rule.\<close>

definition permissions_index :: "(string \<times> (string \<times> rule) list) list" where
  "permissions_index =
     [(''Query'', [(''me'', isAuthenticated)]),
      (''Mutation'',
         [(''sendMessage'', isAuthenticated), (''joinToConversation'', isAuthenticated)]),
      (''User'', [(''conversations'', isAuthenticated), (''messages'', isAuthenticated)])]"

definition gate :: "(string \<times> (string \<times> rule) list) list \<Rightarrow> string \<Rightarrow> string \<Rightarrow> rule option" where
  "gate perms t f = (case map_of perms t of None \<Rightarrow> None | Some fs \<Rightarrow> map_of fs f)"

definition gated_fields :: "(string \<times> (string \<times> rule) list) list \<Rightarrow> (string \<times> string \<times> rule) list" where
  "gated_fields perms = concat (map (\<lambda>(t, fs). map (\<lambda>(f, r). (t, f, r)) fs) perms)"

text \<open>
  Modelled from the spec: the evaluation of a rule by the rule engine (graphql-shield, a
  library that is not among the source files). Section 4.3: a rule is a predicate
  returning accept or reject, and the composition AND short-circuits on the first rule
  that does not accept. The result is \<open>True\<close> for accept and \<open>False\<close> for reject. An
  atomic rule accepts exactly when its function returns \<open>true\<close>; a function that throws
  has not accepted, so the rule rejects. Evaluating a rule changes nothing, so an AND that
  consulted its second rule after a reject would give the same result.
\<close>

fun resolve_rule :: "rule \<Rightarrow> args \<Rightarrow> context \<Rightarrow> prisma_state \<Rightarrow> bool" where
  "resolve_rule (Rule p) a ctx db = (case p a ctx db of Inl e \<Rightarrow> False | Inr accept \<Rightarrow> accept)"
| "resolve_rule (And l r) a ctx db =
     (if resolve_rule l a ctx db then resolve_rule r a ctx db else False)"

section \<open>Topic Bus\<close>

text \<open>
  The bus is \<open>PubSub\<close> of graphql-yoga, a library that is not among the source files; it
  is modelled from section 4.5 of the spec as a registry of subscriber streams, each
  under one topic, holding the events delivered to it in order.
\<close>

record subscriber =
  topic :: string
  active :: bool
  queue :: "message list"

text \<open>
  Modelled from the spec: \<open>pubsub.publish(topic, event)\<close>, which is missing. It delivers
  the event to every currently active subscriber stream registered under the topic, after
  the events delivered before, and keeps nothing for later subscribers.
\<close>

definition publish :: "string \<Rightarrow> message \<Rightarrow> subscriber list \<Rightarrow> subscriber list" where
  "publish t ev subs =
     map (\<lambda>s. if active s \<and> topic s = t then s\<lparr>queue := queue s @ [ev]\<rparr> else s) subs"

text \<open>
  Modelled from the spec: \<open>pubsub.asyncIterator(topic)\<close>, which is missing. It registers
  a new, empty, active stream under the topic and returns its handle, the stream's
  position in the registry.
\<close>

definition asyncIterator :: "string \<Rightarrow> subscriber list \<Rightarrow> nat \<times> subscriber list" where
  "asyncIterator t subs = (length subs, subs @ [\<lparr>topic = t, active = True, queue = []\<rparr>])"

text \<open>
  Modelled from the spec: the cancellation of a stream when its connection closes
  (\<open>return\<close> of the iterator), which is missing. The subscriber is deregistered, the
  others are not disturbed.
\<close>

definition iterator_return :: "nat \<Rightarrow> subscriber list \<Rightarrow> subscriber list" where
  "iterator_return i subs =
     (if i < length subs then subs[i := (subs ! i)\<lparr>active := False\<rparr>] else subs)"

section \<open>Resolver Layer\<close>

text \<open>The state of the process: the data store behind \<open>prisma\<close> and the bus \<open>pubsub\<close>.\<close>

record world =
  prisma :: prisma_state
  pubsub :: "subscriber list"

text \<open>
  Modelled from the spec: the middleware that \<open>shield\<close> of graphql-shield builds from the
  table, which is missing. Section 4.3: before any resolver body executes, all rules
  attached to the field must accept, or the operation fails with the uniform
  authorization error and the resolver body never runs. A field with no rule is
  resolved directly.
\<close>

definition shield ::
  "(string \<times> (string \<times> rule) list) list \<Rightarrow> string \<Rightarrow> string \<Rightarrow>
   (args \<Rightarrow> context \<Rightarrow> world \<Rightarrow> (error + 'r) \<times> world) \<Rightarrow>
   args \<Rightarrow> context \<Rightarrow> world \<Rightarrow> (error + 'r) \<times> world" where
  "shield perms t f resolver a ctx w =
     (case gate perms t f of
        None \<Rightarrow> resolver a ctx w
      | Some r \<Rightarrow>
          if resolve_rule r a ctx (prisma w) then resolver a ctx w
          else (Inl NotAuthorised, w))"

text \<open>
  Modelled from the spec: \<open>prisma.updateConversation\<close> with
  \<open>data: { participants: { connect: { id: userId } } }\<close>, the contract's
  \<open>addParticipant(conversationId, userId)\<close>; the generated client is missing. The call
  fails when the conversation or the user is not in the store; otherwise the user is a
  participant afterwards, added when absent, and the updated conversation is returned.
\<close>

definition prisma_updateConversation ::
  "prisma_state \<Rightarrow> string \<Rightarrow> string \<Rightarrow> error + (conversation \<times> prisma_state)" where
  "prisma_updateConversation db conversationId userId =
     (case prisma_conversation db conversationId of
        None \<Rightarrow> Inl StoreError
      | Some c \<Rightarrow>
          if \<not> prisma_exists_user db userId then Inl StoreError
          else
            let c' = (if userId \<in> set (participants c) then c
                      else c\<lparr>participants := participants c @ [userId]\<rparr>)
            in Inr (c', db\<lparr>conversations :=
                      map (\<lambda>k. if conversation_id k = conversationId then c' else k)
                        (conversations db)\<rparr>))"

text \<open>
  Modelled from the spec: \<open>prisma.createMessage\<close>, the contract's
  \<open>createMessage(authorId, conversationId, body)\<close>; the generated client is missing. The
  call fails when the author or the conversation is not in the store; otherwise the new
  message, with a fresh id, is stored and returned.
\<close>

definition prisma_createMessage ::
  "prisma_state \<Rightarrow> string \<Rightarrow> string \<Rightarrow> string \<Rightarrow> error + (message \<times> prisma_state)" where
  "prisma_createMessage db authorId conversationId b =
     (if \<not> prisma_exists_user db authorId then Inl StoreError
      else if prisma_conversation db conversationId = None then Inl StoreError
      else
        let m = \<lparr>message_id = length (messages db), body = b, author = authorId,
                 message_conversation = conversationId\<rparr>
        in Inr (m, db\<lparr>messages := messages db @ [m]\<rparr>))"

text \<open>
  A promise that is not awaited is an object, and every object is truthy: \<open>!p\<close> is
  \<open>false\<close> whatever the promise resolves to.
\<close>

datatype 'a promise = Promise 'a

fun js_not :: "'a promise \<Rightarrow> bool" where
  "js_not (Promise _) = False"

text \<open>
  \<open>joinToConversation\<close>: \<open>existsUserInConv(...)\<close> is called without \<open>await\<close>, so
  \<open>isExistsInConv\<close> is the promise, and \<open>!isExistsInConv\<close> tests the promise. What the
  promise resolves to, or that it is rejected, is observed by nothing in the resolver.
  \<open>user.id\<close> is read when the call is made: on a \<open>null\<close> user it is a TypeError.
\<close>

definition joinToConversation ::
  "args \<Rightarrow> context \<Rightarrow> world \<Rightarrow> (error + conversation option) \<times> world" where
  "joinToConversation a ctx w =
     (case ctx_user ctx of
        None \<Rightarrow> (Inl TypeError, w)
      | Some u \<Rightarrow>
          let conversationId = arg_conversation a;
              isExistsInConv = Promise (existsUserInConv (prisma w) (user_id u) conversationId)
          in
            if js_not isExistsInConv then
              (case prisma_updateConversation (prisma w) conversationId (user_id u) of
                 Inl e \<Rightarrow> (Inl e, w)
               | Inr (c, db') \<Rightarrow> (Inr (Some c), w\<lparr>prisma := db'\<rparr>))
            else (Inr (prisma_conversation (prisma w) conversationId), w))"

text \<open>The participant set of a conversation in a state of the process.\<close>

definition participant_set :: "world \<Rightarrow> string \<Rightarrow> string set" where
  "participant_set w c =
     (case prisma_conversation (prisma w) c of None \<Rightarrow> {} | Some k \<Rightarrow> set (participants k))"

text \<open>\<open>sendMessage\<close>: the message is created in the store, then published under the conversation id.\<close>

definition sendMessage :: "args \<Rightarrow> context \<Rightarrow> world \<Rightarrow> (error + message) \<times> world" where
  "sendMessage a ctx w =
     (case ctx_user ctx of
        None \<Rightarrow> (Inl TypeError, w)
      | Some u \<Rightarrow>
          (case prisma_createMessage (prisma w) (user_id u) (arg_conversation a) (arg_body a) of
             Inl e \<Rightarrow> (Inl e, w)
           | Inr (m, db') \<Rightarrow>
               (Inr m, \<lparr>prisma = db', pubsub = publish (arg_conversation a) m (pubsub w)\<rparr>)))"

text \<open>\<open>Subscription.message.subscribe\<close>: the stream of the topic \<open>conversationId\<close>.\<close>

definition subscribe :: "args \<Rightarrow> context \<Rightarrow> world \<Rightarrow> (error + nat) \<times> world" where
  "subscribe a ctx w =
     (let (it, subs) = asyncIterator (arg_conversation a) (pubsub w)
      in (Inr it, w\<lparr>pubsub := subs\<rparr>))"


section \<open>The server: context, gate, resolver\<close>

text \<open>
  What \<open>context\<close> receives: the HTTP request (its \<open>get\<close> method) and, for a subscription,
  the connection (its \<open>context\<close> object, read by key).
\<close>

record incoming =
  request :: "string \<Rightarrow> string option"
  connection :: "(string \<Rightarrow> string option) option"

definition server_context ::
  "(string \<Rightarrow> string \<Rightarrow> error + jwt_payload) \<Rightarrow> string \<Rightarrow> prisma_state \<Rightarrow> incoming \<Rightarrow>
   error + context" where
  "server_context verify secret db inc =
     (case connection inc of
        Some connection_context \<Rightarrow>
          (case getUser verify secret db (\<lambda>headerName. connection_context headerName) of
             Inl e \<Rightarrow> Inl e
           | Inr u \<Rightarrow> Inr \<lparr>ctx_user = u\<rparr>)
      | None \<Rightarrow>
          (case getUser verify secret db (request inc) of
             Inl e \<Rightarrow> Inl e
           | Inr u \<Rightarrow> Inr \<lparr>ctx_user = u\<rparr>))"

text \<open>
  Modelled from the spec: the server's handling of one operation (\<open>GraphQLServer\<close> of
  graphql-yoga, which is missing). Section 2: every incoming operation first passes
  through the Identity Resolver, which produces the context, then through the rule
  engine, then reaches the resolver.
\<close>

definition execute ::
  "(string \<Rightarrow> string \<Rightarrow> error + jwt_payload) \<Rightarrow> string \<Rightarrow> incoming \<Rightarrow> string \<Rightarrow> string \<Rightarrow>
   (args \<Rightarrow> context \<Rightarrow> world \<Rightarrow> (error + 'r) \<times> world) \<Rightarrow> args \<Rightarrow> world \<Rightarrow>
   (error + 'r) \<times> world" where
  "execute verify secret inc t f resolver a w =
     (case server_context verify secret (prisma w) inc of
        Inl e \<Rightarrow> (Inl e, w)
      | Inr ctx \<Rightarrow> shield permissions t f resolver a ctx w)"

section \<open>The Date scalar\<close>

text \<open>
  The values the scalar meets. A number is an integer or \<open>NaN\<close>: time values are
  integers of at most 8.64e15 in size, which a double holds exactly; numbers with a
  fraction are not represented. A \<open>Date\<close> holds a time value in milliseconds, or none
  (an invalid date, whose \<open>getTime()\<close> is \<open>NaN\<close>).
\<close>

datatype js_value =
  JUndefined
  | JNull
  | JBool bool
  | JNumber int
  | JNaN
  | JString string
  | JDate "int option"

definition time_clip :: "int \<Rightarrow> int option" where
  "time_clip t = (if \<bar>t\<bar> \<le> 8640000000000000 then Some t else None)"

text \<open>
  \<open>new Date(value)\<close>: a \<open>Date\<close> is copied, a string goes through \<open>Date.parse\<close> (a parameter:
  it is the engine's, and for strings outside the ISO format it is implementation-defined),
  anything else is converted to a number and clipped.
\<close>

fun new_Date :: "(string \<Rightarrow> int option) \<Rightarrow> js_value \<Rightarrow> js_value" where
  "new_Date date_parse (JDate tv) = JDate tv"
| "new_Date date_parse (JString s) =
     JDate (case date_parse s of None \<Rightarrow> None | Some t \<Rightarrow> time_clip t)"
| "new_Date date_parse JUndefined = JDate None"
| "new_Date date_parse JNull = JDate (Some 0)"
| "new_Date date_parse (JBool b) = JDate (Some (if b then 1 else 0))"
| "new_Date date_parse (JNumber n) = JDate (time_clip n)"
| "new_Date date_parse JNaN = JDate None"

definition parseValue :: "(string \<Rightarrow> int option) \<Rightarrow> js_value \<Rightarrow> js_value" where
  "parseValue date_parse v = new_Date date_parse v"

text \<open>\<open>value.getTime()\<close> is a TypeError on anything that is not a \<open>Date\<close>.\<close>

fun getTime :: "js_value \<Rightarrow> error + js_value" where
  "getTime (JDate (Some t)) = Inr (JNumber t)"
| "getTime (JDate None) = Inr JNaN"
| "getTime _ = Inl TypeError"

fun serialize :: "js_value \<Rightarrow> error + js_value" where
  "serialize (JString s) = Inr (JString s)"
| "serialize v = getTime v"

text \<open>\<open>serialize\<close> of \<open>src/index.ts\<close> has no case for strings.\<close>

definition serialize_index :: "js_value \<Rightarrow> error + js_value" where
  "serialize_index v = getTime v"

text \<open>The value nodes of a GraphQL document and their kinds; an integer literal carries its text.\<close>

datatype kind =
  Kind_VARIABLE | Kind_INT | Kind_FLOAT | Kind_STRING | Kind_BOOLEAN | Kind_NULL | Kind_ENUM
  | Kind_LIST | Kind_OBJECT

datatype value_node =
  Variable string
  | IntValue string
  | FloatValue string
  | StringValue string
  | BooleanValue bool
  | NullValue
  | EnumValue string
  | ListValue "value_node list"
  | ObjectValue "(string \<times> value_node) list"

fun kind_of :: "value_node \<Rightarrow> kind" where
  "kind_of (Variable _) = Kind_VARIABLE"
| "kind_of (IntValue _) = Kind_INT"
| "kind_of (FloatValue _) = Kind_FLOAT"
| "kind_of (StringValue _) = Kind_STRING"
| "kind_of (BooleanValue _) = Kind_BOOLEAN"
| "kind_of NullValue = Kind_NULL"
| "kind_of (EnumValue _) = Kind_ENUM"
| "kind_of (ListValue _) = Kind_LIST"
| "kind_of (ObjectValue _) = Kind_OBJECT"

fun parseLiteral :: "(string \<Rightarrow> int option) \<Rightarrow> value_node \<Rightarrow> js_value" where
  "parseLiteral date_parse (IntValue v) = new_Date date_parse (JString v)"
| "parseLiteral date_parse ast = JNull"

text \<open>The text of an integer literal: its decimal digits, with a sign when negative.\<close>

fun digits :: "nat \<Rightarrow> string" where
  "digits n =
     (if n < 10 then [''0123456789'' ! n]
      else digits (n div 10) @ [''0123456789'' ! (n mod 10)])"

declare digits.simps [simp del]

definition int_text :: "int \<Rightarrow> string" where
  "int_text n = (if n < 0 then CHR ''-'' # digits (nat (- n)) else digits (nat n))"

definition int_literal :: "int \<Rightarrow> value_node" where
  "int_literal n = IntValue (int_text n)"

section \<open>Sample data\<close>

text \<open>
  A stand-in for \<open>verify\<close> in the examples: a token is the secret, a colon and the user's
  id; anything else does not verify.
\<close>

definition sample_verify :: "string \<Rightarrow> string \<Rightarrow> error + jwt_payload" where
  "sample_verify token secret =
     (if take (length secret + 1) token = secret @ '':''
      then Inr \<lparr>payload_id = drop (length secret + 1) token, payload_nickname = []\<rparr>
      else Inl JsonWebTokenError)"

definition alice :: user where
  "alice = \<lparr>user_id = ''u1'', nickname = ''alice''\<rparr>"

definition bob :: user where
  "bob = \<lparr>user_id = ''u2'', nickname = ''bob''\<rparr>"

text \<open>Two users; conversation \<open>c1\<close> has the participant bob, conversation \<open>c2\<close> has none.\<close>

definition sample_db :: prisma_state where
  "sample_db =
     \<lparr>users = [alice, bob],
      conversations =
        [\<lparr>conversation_id = ''c1'', title = ''general'', participants = [''u2'']\<rparr>,
         \<lparr>conversation_id = ''c2'', title = ''empty'', participants = []\<rparr>],
      messages = []\<rparr>"

text \<open>One active stream on \<open>c1\<close>, one on \<open>c2\<close>, one cancelled stream on \<open>c1\<close>.\<close>

definition sample_world :: world where
  "sample_world =
     \<lparr>prisma = sample_db,
      pubsub =
        [\<lparr>topic = ''c1'', active = True, queue = []\<rparr>,
         \<lparr>topic = ''c2'', active = True, queue = []\<rparr>,
         \<lparr>topic = ''c1'', active = False, queue = []\<rparr>]\<rparr>"

text \<open>The message that bob's \<open>sendMessage("hi", c1)\<close> creates in the sample store.\<close>

definition hi_message :: message where
  "hi_message =
     \<lparr>message_id = 0, body = ''hi'', author = ''u2'', message_conversation = ''c1''\<rparr>"


section \<open>Identity Resolver: properties\<close>

lemma sample_exists_user: "prisma_exists_user sample_db i = (i = ''u1'' \<or> i = ''u2'')"
  by (auto simp add: prisma_exists_user_def prisma_user_def sample_db_def alice_def bob_def)

text \<open>A credential that verifies and whose user is in the store resolves to that user.\<close>

lemma getUser_valid_example:
  "getUser sample_verify ''s3cret'' sample_db
     (\<lambda>h. if h = ''Authorization'' then Some ''Bearer s3cret:u1'' else None) = Inr (Some alice)"
  by (simp add: getUser_def sample_verify_def sample_exists_user)
    (simp add: prisma_user_def sample_db_def alice_def)

text \<open>Whatever \<open>verify\<close> throws comes out of \<open>getUser\<close>: nothing catches it.\<close>

lemma getUser_verify_throws:
  assumes "req ''Authorization'' = Some authorization" and "authorization \<noteq> []"
    and "verify (replace ''Bearer '' [] authorization) secret = Inl e"
  shows "getUser verify secret db req = Inl e"
  using assms by (simp add: getUser_def)

text \<open>In \<open>src/index.ts\<close> a request without the header is an exception, not \<open>null\<close>.\<close>

lemma getUser_index_no_authorization:
  "req ''Authorization'' = None \<Longrightarrow> getUser_index verify secret db req = Inl NotAuthenticated"
  by (simp add: getUser_index_def)

text \<open>
  Claim C2. The claim: for every token whose verification fails, \<open>getUser\<close> returns
  \<open>null\<close> rather than raising. The code raises: a request with the header
  \<open>Authorization: Bearer garbage\<close>, whose token does not verify, makes \<open>getUser\<close> throw
  the verifier's error, while the two sibling failures of the same function (no header,
  user not in the store) return \<open>null\<close>.
\<close>

theorem getUser_invalid_token_throws:
  "getUser sample_verify ''s3cret'' sample_db
     (\<lambda>h. if h = ''Authorization'' then Some ''Bearer garbage'' else None) = Inl JsonWebTokenError"
  by (simp add: getUser_def sample_verify_def)

text \<open>
  Claim C9. For every credential that verifies but whose decoded id is not in the data
  store, \<open>getUser\<close> returns \<open>null\<close>.
\<close>

theorem getUser_deleted_user_null:
  assumes "req ''Authorization'' = Some authorization" and "authorization \<noteq> []"
    and "verify (replace ''Bearer '' [] authorization) secret = Inr payload"
    and "\<not> prisma_exists_user db (payload_id payload)"
  shows "getUser verify secret db req = Inr None"
  using assms by (simp add: getUser_def)

theorem getUser_deleted_user_null_witness:
  "getUser sample_verify ''s3cret'' sample_db
     (\<lambda>h. if h = ''Authorization'' then Some ''Bearer s3cret:u9'' else None) = Inr None"
proof (rule getUser_deleted_user_null
    [where authorization = "''Bearer s3cret:u9''"
       and payload = "\<lparr>payload_id = ''u9'', payload_nickname = []\<rparr>"])
  show "(if ''Authorization'' = ''Authorization'' then Some ''Bearer s3cret:u9'' else None)
      = Some ''Bearer s3cret:u9''"
    by simp
  show "''Bearer s3cret:u9'' \<noteq> []"
    by simp
  show "sample_verify (replace ''Bearer '' [] ''Bearer s3cret:u9'') ''s3cret''
      = Inr \<lparr>payload_id = ''u9'', payload_nickname = []\<rparr>"
    by (simp add: sample_verify_def)
  show "\<not> prisma_exists_user sample_db (payload_id \<lparr>payload_id = ''u9'', payload_nickname = []\<rparr>)"
    by (simp add: sample_exists_user)
qed

section \<open>Access rules: properties\<close>

lemma gate_permissions_cases:
  assumes "gate permissions t f = Some r"
  shows "r = isAuthenticated \<or> r = And isAuthenticated haveUserAccessToConv"
  using assms by (auto simp add: gate_def permissions_def split: if_splits)

lemma isAuthenticated_resolve:
  "resolve_rule isAuthenticated a ctx db = (ctx_user ctx \<noteq> None)"
  by (simp add: isAuthenticated_def isAuthenticated_fn_def)

text \<open>An AND accepts exactly when both of its rules accept.\<close>

lemma resolve_rule_And:
  "resolve_rule (And l r) a ctx db = (resolve_rule l a ctx db \<and> resolve_rule r a ctx db)"
  by simp

text \<open>
  On a \<open>null\<close> identity the function of \<open>haveUserAccessToConv\<close> throws at \<open>user.id\<close>, and
  the rule, evaluated by the engine, rejects.
\<close>

lemma haveUserAccessToConv_fn_null:
  "ctx_user ctx = None \<Longrightarrow> haveUserAccessToConv_fn a ctx db = Inl TypeError"
  by (simp add: haveUserAccessToConv_fn_def)

lemma haveUserAccessToConv_null:
  "ctx_user ctx = None \<Longrightarrow> \<not> resolve_rule haveUserAccessToConv a ctx db"
  by (simp add: haveUserAccessToConv_def haveUserAccessToConv_fn_null)

lemma and_isAuthenticated_null:
  "ctx_user ctx = None \<Longrightarrow> \<not> resolve_rule (And isAuthenticated r) a ctx db"
  by (simp add: isAuthenticated_def isAuthenticated_fn_def)

text \<open>
  With an identity, the composed gate is the membership check: a participant of the
  conversation passes, another user does not.
\<close>

lemma and_gate_member:
  assumes "ctx_user ctx = Some u" and "prisma_conversation db (arg_conversation a) = Some k"
  shows "resolve_rule (And isAuthenticated haveUserAccessToConv) a ctx db
     = (user_id u \<in> set (participants k))"
  using assms
  by (simp add: isAuthenticated_def isAuthenticated_fn_def haveUserAccessToConv_def
      haveUserAccessToConv_fn_def existsUserInConv_def)

lemma gate_null:
  assumes "ctx_user ctx = None" and "gate permissions t f = Some r"
  shows "\<not> resolve_rule r a ctx db"
  using gate_permissions_cases [OF assms(2)] assms(1)
  by (auto simp add: isAuthenticated_resolve)

lemma shield_null:
  assumes "ctx_user ctx = None" and "gate permissions t f = Some r"
  shows "shield permissions t f resolver a ctx w = (Inl NotAuthorised, w)"
  using gate_null [OF assms, of a "prisma w"] assms(2) by (simp add: shield_def)

text \<open>
  bob, a participant of \<open>c1\<close>, passes the gate of \<open>Mutation.sendMessage\<close> there; alice,
  who is not one, is rejected and nothing is stored or published.
\<close>

lemma sendMessage_gate_example:
  "resolve_rule (And isAuthenticated haveUserAccessToConv)
       \<lparr>arg_conversation = ''c1'', arg_body = ''hi''\<rparr> \<lparr>ctx_user = Some bob\<rparr> sample_db
   \<and> shield permissions ''Mutation'' ''sendMessage'' sendMessage
       \<lparr>arg_conversation = ''c1'', arg_body = ''hi''\<rparr> \<lparr>ctx_user = Some alice\<rparr> sample_world
     = (Inl NotAuthorised, sample_world)"
proof -
  have c: "prisma_conversation sample_db ''c1''
      = Some \<lparr>conversation_id = ''c1'', title = ''general'', participants = [''u2'']\<rparr>"
    by (simp add: prisma_conversation_def sample_db_def)
  have g: "gate permissions ''Mutation'' ''sendMessage''
      = Some (And isAuthenticated haveUserAccessToConv)"
    by (simp add: gate_def permissions_def)
  have b: "resolve_rule (And isAuthenticated haveUserAccessToConv)
       \<lparr>arg_conversation = ''c1'', arg_body = ''hi''\<rparr> \<lparr>ctx_user = Some bob\<rparr> sample_db"
    using and_gate_member [of "\<lparr>ctx_user = Some bob\<rparr>" bob sample_db
        "\<lparr>arg_conversation = ''c1'', arg_body = ''hi''\<rparr>"] c
    by (simp add: bob_def)
  have a: "\<not> resolve_rule (And isAuthenticated haveUserAccessToConv)
       \<lparr>arg_conversation = ''c1'', arg_body = ''hi''\<rparr> \<lparr>ctx_user = Some alice\<rparr> sample_db"
    using and_gate_member [of "\<lparr>ctx_user = Some alice\<rparr>" alice sample_db
        "\<lparr>arg_conversation = ''c1'', arg_body = ''hi''\<rparr>"] c
    by (simp add: alice_def)
  have "prisma sample_world = sample_db"
    by (simp add: sample_world_def)
  with a g have "shield permissions ''Mutation'' ''sendMessage'' sendMessage
       \<lparr>arg_conversation = ''c1'', arg_body = ''hi''\<rparr> \<lparr>ctx_user = Some alice\<rparr> sample_world
     = (Inl NotAuthorised, sample_world)"
    by (simp add: shield_def)
  with b show ?thesis by simp
qed

text \<open>In \<open>src/index.ts\<close>, \<open>Mutation.sendMessage\<close> is gated by \<open>isAuthenticated\<close> alone.\<close>

lemma permissions_index_sendMessage:
  "gate permissions_index ''Mutation'' ''sendMessage'' = Some isAuthenticated
   \<and> gate permissions_index ''Subscription'' ''message'' = None"
  by (simp add: gate_def permissions_index_def)

text \<open>
  Claim C3. The table of gates is exactly: \<open>Query.me\<close>, \<open>Mutation.joinToConversation\<close>,
  \<open>User.conversations\<close> and \<open>User.messages\<close> under \<open>isAuthenticated\<close> alone;
  \<open>Mutation.sendMessage\<close> and \<open>Subscription.message\<close> under
  \<open>and(isAuthenticated, haveUserAccessToConv)\<close>; no other field has a gate.
\<close>

theorem permissions_table:
  "gated_fields permissions =
     [(''Query'', ''me'', isAuthenticated),
      (''Mutation'', ''sendMessage'', And isAuthenticated haveUserAccessToConv),
      (''Mutation'', ''joinToConversation'', isAuthenticated),
      (''Subscription'', ''message'', And isAuthenticated haveUserAccessToConv),
      (''User'', ''conversations'', isAuthenticated),
      (''User'', ''messages'', isAuthenticated)]
   \<and> gate permissions ''Query'' ''me'' = Some isAuthenticated
   \<and> gate permissions ''Mutation'' ''joinToConversation'' = Some isAuthenticated
   \<and> gate permissions ''User'' ''conversations'' = Some isAuthenticated
   \<and> gate permissions ''User'' ''messages'' = Some isAuthenticated
   \<and> gate permissions ''Mutation'' ''sendMessage'' = Some (And isAuthenticated haveUserAccessToConv)
   \<and> gate permissions ''Subscription'' ''message'' = Some (And isAuthenticated haveUserAccessToConv)
   \<and> isAuthenticated \<noteq> And isAuthenticated haveUserAccessToConv"
  by (simp add: gated_fields_def gate_def permissions_def isAuthenticated_def)

text \<open>
  Claim C4. For every operation whose context holds a \<open>null\<close> identity, every
  identity-gated rule evaluates to reject: \<open>isAuthenticated\<close>, \<open>haveUserAccessToConv\<close>,
  their \<open>and\<close>, and so every gate of the table; a field gated by any of them fails with
  the authorization error, for every resolver, the state left as it was. In particular
  \<open>haveUserAccessToConv\<close> rejects: the read of \<open>user.id\<close> throws inside its function, and
  the rule does not accept.
\<close>

theorem null_identity_rules:
  assumes "ctx_user ctx = None"
  shows "\<not> resolve_rule isAuthenticated a ctx db
    \<and> \<not> resolve_rule haveUserAccessToConv a ctx db
    \<and> \<not> resolve_rule (And isAuthenticated haveUserAccessToConv) a ctx db
    \<and> (\<forall>t f r. gate permissions t f = Some r \<longrightarrow> \<not> resolve_rule r a ctx db)
    \<and> (\<forall>t f r resolver w. gate permissions t f = Some r \<longrightarrow>
          shield permissions t f resolver a ctx w = (Inl NotAuthorised, w))
    \<and> (\<forall>t f resolver w.
          shield [(t, [(f, haveUserAccessToConv)])] t f resolver a ctx w = (Inl NotAuthorised, w))
    \<and> haveUserAccessToConv_fn a ctx db = Inl TypeError"
proof -
  have "\<not> resolve_rule isAuthenticated a ctx db"
    using assms by (simp add: isAuthenticated_resolve)
  moreover have h: "\<And>db. \<not> resolve_rule haveUserAccessToConv a ctx db"
    using assms by (rule haveUserAccessToConv_null)
  moreover have "\<not> resolve_rule (And isAuthenticated haveUserAccessToConv) a ctx db"
    using assms by (rule and_isAuthenticated_null)
  moreover have "\<forall>t f r. gate permissions t f = Some r \<longrightarrow> \<not> resolve_rule r a ctx db"
    using gate_null [OF assms] by blast
  moreover have "\<forall>t f r resolver w. gate permissions t f = Some r \<longrightarrow>
          shield permissions t f resolver a ctx w = (Inl NotAuthorised, w)"
    using shield_null [OF assms] by blast
  moreover have "\<forall>t f resolver w.
          shield [(t, [(f, haveUserAccessToConv)])] t f resolver a ctx w = (Inl NotAuthorised, w)"
    using h by (simp add: shield_def gate_def)
  moreover have "haveUserAccessToConv_fn a ctx db = Inl TypeError"
    using assms by (rule haveUserAccessToConv_fn_null)
  ultimately show ?thesis by blast
qed

theorem null_identity_rules_witness:
  "\<not> resolve_rule isAuthenticated \<lparr>arg_conversation = ''c1'', arg_body = []\<rparr>
       \<lparr>ctx_user = None\<rparr> sample_db
   \<and> \<not> resolve_rule haveUserAccessToConv \<lparr>arg_conversation = ''c1'', arg_body = []\<rparr>
       \<lparr>ctx_user = None\<rparr> sample_db
   \<and> \<not> resolve_rule (And isAuthenticated haveUserAccessToConv)
       \<lparr>arg_conversation = ''c1'', arg_body = []\<rparr> \<lparr>ctx_user = None\<rparr> sample_db
   \<and> shield permissions ''Subscription'' ''message'' subscribe
       \<lparr>arg_conversation = ''c1'', arg_body = []\<rparr> \<lparr>ctx_user = None\<rparr> sample_world
     = (Inl NotAuthorised, sample_world)
   \<and> shield [(''Subscription'', [(''message'', haveUserAccessToConv)])] ''Subscription''
       ''message'' subscribe \<lparr>arg_conversation = ''c1'', arg_body = []\<rparr> \<lparr>ctx_user = None\<rparr>
       sample_world
     = (Inl NotAuthorised, sample_world)
   \<and> haveUserAccessToConv_fn \<lparr>arg_conversation = ''c1'', arg_body = []\<rparr>
       \<lparr>ctx_user = None\<rparr> sample_db = Inl TypeError"
proof -
  have g: "gate permissions ''Subscription'' ''message''
      = Some (And isAuthenticated haveUserAccessToConv)"
    by (simp add: gate_def permissions_def)
  have n: "ctx_user \<lparr>ctx_user = None\<rparr> = None"
    by simp
  show ?thesis
    using null_identity_rules
      [OF n, of "\<lparr>arg_conversation = ''c1'', arg_body = []\<rparr>" sample_db] g
    by blast
qed

text \<open>
  Claim C5. For every request (or subscription connection) with no \<open>Authorization\<close>
  value, \<open>getUser\<close> returns \<open>null\<close>, and every gated field then fails with the
  authorization error whatever its resolver is, the state left as it was: the resolver
  has not run.
\<close>

theorem no_authorization_rejected:
  assumes "(case connection inc of
              Some connection_context \<Rightarrow> connection_context ''Authorization''
            | None \<Rightarrow> request inc ''Authorization'') = None"
    and "gate permissions t f = Some r"
  shows "getUser verify secret (prisma w)
           (case connection inc of Some connection_context \<Rightarrow> connection_context
            | None \<Rightarrow> request inc) = Inr None
    \<and> server_context verify secret (prisma w) inc = Inr \<lparr>ctx_user = None\<rparr>
    \<and> execute verify secret inc t f resolver a w = (Inl NotAuthorised, w)"
proof -
  have g: "getUser verify secret (prisma w)
             (case connection inc of Some connection_context \<Rightarrow> connection_context
              | None \<Rightarrow> request inc) = Inr None"
    using assms(1) by (simp add: getUser_def split: option.splits)
  then have c: "server_context verify secret (prisma w) inc = Inr \<lparr>ctx_user = None\<rparr>"
    by (simp add: server_context_def split: option.splits)
  have "shield permissions t f resolver a \<lparr>ctx_user = None\<rparr> w = (Inl NotAuthorised, w)"
    by (rule shield_null [OF _ assms(2)]) simp
  with g c show ?thesis by (simp add: execute_def)
qed

theorem no_authorization_rejected_witness:
  "getUser sample_verify ''s3cret'' sample_db (\<lambda>h. None) = Inr None
   \<and> execute sample_verify ''s3cret'' \<lparr>request = (\<lambda>h. None), connection = None\<rparr>
        ''Mutation'' ''sendMessage'' sendMessage \<lparr>arg_conversation = ''c1'', arg_body = ''hi''\<rparr>
        sample_world
      = (Inl NotAuthorised, sample_world)"
proof -
  have g: "gate permissions ''Mutation'' ''sendMessage''
      = Some (And isAuthenticated haveUserAccessToConv)"
    by (simp add: gate_def permissions_def)
  have p: "prisma sample_world = sample_db"
    by (simp add: sample_world_def)
  show ?thesis
    using no_authorization_rejected
      [of "\<lparr>request = (\<lambda>h. None), connection = None\<rparr>" "''Mutation''" "''sendMessage''"
        "And isAuthenticated haveUserAccessToConv" sample_verify "''s3cret''" sample_world
        sendMessage "\<lparr>arg_conversation = ''c1'', arg_body = ''hi''\<rparr>", OF _ g]
    by (simp add: p)
qed

section \<open>joinToConversation: properties\<close>

text \<open>
  The test \<open>!isExistsInConv\<close> is on a promise, so it never holds: the update is never
  issued and the state is never changed.
\<close>

lemma joinToConversation_keeps_world: "snd (joinToConversation a ctx w) = w"
  by (simp add: joinToConversation_def split: option.splits)

text \<open>
  For every caller with an identity, the resolver returns the conversation as the store
  has it and leaves the store as it was, whether or not the caller is a participant.
\<close>

lemma joinToConversation_returns_current:
  "ctx_user ctx = Some u \<Longrightarrow>
   joinToConversation a ctx w = (Inr (prisma_conversation (prisma w) (arg_conversation a)), w)"
  by (simp add: joinToConversation_def Let_def)

text \<open>
  Claim C1. The claim: \<open>joinToConversation(C)\<close> called by U adds U to the participants
  of C when U is not one of them. The code does not: alice, who is not a participant of
  the conversation \<open>c2\<close>, joins it, gets the conversation back as it was, and is still
  not a participant.
\<close>

theorem joinToConversation_does_not_add:
  "joinToConversation \<lparr>arg_conversation = ''c2'', arg_body = []\<rparr> \<lparr>ctx_user = Some alice\<rparr>
       sample_world
     = (Inr (Some \<lparr>conversation_id = ''c2'', title = ''empty'', participants = []\<rparr>),
        sample_world)
   \<and> existsUserInConv sample_db (user_id alice) ''c2'' = Inr False
   \<and> user_id alice \<notin> participant_set
        (snd (joinToConversation \<lparr>arg_conversation = ''c2'', arg_body = []\<rparr>
               \<lparr>ctx_user = Some alice\<rparr> sample_world)) ''c2''"
  by (simp add: joinToConversation_def existsUserInConv_def participant_set_def
      prisma_conversation_def sample_world_def sample_db_def alice_def Let_def)

text \<open>
  Claim C7. \<open>joinToConversation\<close> is idempotent: for every user, conversation and state,
  the participant set after two calls is the participant set after one.
\<close>

theorem joinToConversation_idempotent:
  "participant_set (snd (joinToConversation a ctx (snd (joinToConversation a ctx w)))) c
     = participant_set (snd (joinToConversation a ctx w)) c
   \<and> snd (joinToConversation a ctx (snd (joinToConversation a ctx w)))
     = snd (joinToConversation a ctx w)"
  by (simp add: joinToConversation_keeps_world)


section \<open>sendMessage and the Topic Bus: properties\<close>

lemma publish_length: "length (publish t ev subs) = length subs"
  by (simp add: publish_def)

lemma publish_nth:
  assumes "i < length subs"
  shows "topic (publish t ev subs ! i) = topic (subs ! i)"
    and "active (publish t ev subs ! i) = active (subs ! i)"
    and "queue (publish t ev subs ! i) =
          (if active (subs ! i) \<and> topic (subs ! i) = t then queue (subs ! i) @ [ev]
           else queue (subs ! i))"
  using assms by (simp_all add: publish_def)

text \<open>When the store refuses the message, nothing is published and nothing changes.\<close>

lemma sendMessage_failure:
  assumes "sendMessage a ctx w = (Inl e, w')"
  shows "w' = w"
  using assms by (auto simp add: sendMessage_def split: option.splits sum.splits prod.splits)

lemma sendMessage_success:
  assumes "ctx_user ctx = Some u" and "prisma_exists_user (prisma w) (user_id u)"
    and "prisma_conversation (prisma w) (arg_conversation a) = Some k"
  shows "sendMessage a ctx w =
     (let m = \<lparr>message_id = length (messages (prisma w)), body = arg_body a,
                author = user_id u, message_conversation = arg_conversation a\<rparr>
      in (Inr m, \<lparr>prisma = (prisma w)\<lparr>messages := messages (prisma w) @ [m]\<rparr>,
                  pubsub = publish (arg_conversation a) m (pubsub w)\<rparr>))"
  using assms by (simp add: sendMessage_def prisma_createMessage_def Let_def)

text \<open>\<open>subscribe\<close> registers a new, empty, active stream under the conversation id.\<close>

lemma subscribe_registers:
  "subscribe a ctx w =
     (Inr (length (pubsub w)),
      w\<lparr>pubsub := pubsub w @ [\<lparr>topic = arg_conversation a, active = True, queue = []\<rparr>]\<rparr>)"
  by (simp add: subscribe_def asyncIterator_def)

text \<open>A stream that was cancelled before the publish is not delivered the event.\<close>

lemma publish_after_return:
  "i < length subs \<Longrightarrow> queue (publish t ev (iterator_return i subs) ! i) = queue (subs ! i)"
  by (simp add: publish_def iterator_return_def)

text \<open>
  bob sends "hi" to \<open>c1\<close>: the message is stored; the active stream on \<open>c1\<close> gets it, the
  stream on \<open>c2\<close> and the cancelled stream on \<open>c1\<close> do not.
\<close>

lemma sendMessage_example:
  "sendMessage \<lparr>arg_conversation = ''c1'', arg_body = ''hi''\<rparr> \<lparr>ctx_user = Some bob\<rparr> sample_world
   = (Inr hi_message,
      \<lparr>prisma = sample_db\<lparr>messages := [hi_message]\<rparr>,
       pubsub =
         [\<lparr>topic = ''c1'', active = True, queue = [hi_message]\<rparr>,
          \<lparr>topic = ''c2'', active = True, queue = []\<rparr>,
          \<lparr>topic = ''c1'', active = False, queue = []\<rparr>]\<rparr>)"
  by (simp add: sendMessage_def prisma_createMessage_def prisma_exists_user_def prisma_user_def
      prisma_conversation_def sample_world_def sample_db_def alice_def bob_def publish_def
      hi_message_def Let_def)

text \<open>A stream made by \<open>subscribe\<close> is the last one of the registry, on the topic asked for.\<close>

lemma subscribe_stream:
  assumes "subscribe a_s ctx_s w0 = (Inr it, w)"
  shows "it = length (pubsub w0)" and "it < length (pubsub w)" and "prisma w = prisma w0"
    and "pubsub w ! it = \<lparr>topic = arg_conversation a_s, active = True, queue = []\<rparr>"
  using assms by (auto simp add: subscribe_registers)

text \<open>
  Claim C6. \<open>sendMessage(body, C)\<close> creates the message in the store and publishes that
  stored message on the topic C: when the store refuses the message nothing is published;
  otherwise the call returns the stored message, every stream that was active on topic C
  before the call has the message appended, and every other stream (another topic, or
  cancelled) is as it was. A \<open>message(T)\<close> subscription is such a stream: \<open>subscribe\<close>
  always returns, registering a new, empty, active stream on the topic T and leaving the
  streams before it as they were; after a \<open>sendMessage\<close> to C that stream holds exactly
  the message when T is C, and nothing when T is another conversation.
\<close>

theorem sendMessage_persists_then_publishes:
  "(\<forall>e w'. sendMessage a ctx w = (Inl e, w') \<longrightarrow> w' = w)
   \<and> (ctx_user ctx = Some u \<and> prisma_exists_user (prisma w) (user_id u)
        \<and> prisma_conversation (prisma w) (arg_conversation a) \<noteq> None \<longrightarrow>
       (\<exists>m w'. sendMessage a ctx w = (Inr m, w')
          \<and> messages (prisma w') = messages (prisma w) @ [m]
          \<and> body m = arg_body a \<and> author m = user_id u
          \<and> message_conversation m = arg_conversation a
          \<and> pubsub w' = publish (arg_conversation a) m (pubsub w)
          \<and> length (pubsub w') = length (pubsub w)
          \<and> (\<forall>i < length (pubsub w).
                topic (pubsub w' ! i) = topic (pubsub w ! i)
                \<and> active (pubsub w' ! i) = active (pubsub w ! i)
                \<and> queue (pubsub w' ! i) =
                    (if active (pubsub w ! i) \<and> topic (pubsub w ! i) = arg_conversation a
                     then queue (pubsub w ! i) @ [m] else queue (pubsub w ! i)))))
   \<and> (\<exists>it1 w1. subscribe a_s ctx_s w0 = (Inr it1, w1)
          \<and> it1 = length (pubsub w0) \<and> prisma w1 = prisma w0
          \<and> length (pubsub w1) = Suc (length (pubsub w0))
          \<and> topic (pubsub w1 ! it1) = arg_conversation a_s
          \<and> active (pubsub w1 ! it1) \<and> queue (pubsub w1 ! it1) = []
          \<and> (\<forall>i < length (pubsub w0). pubsub w1 ! i = pubsub w0 ! i))
   \<and> (subscribe a_s ctx_s w0 = (Inr it, w) \<and> ctx_user ctx = Some u
        \<and> prisma_exists_user (prisma w) (user_id u)
        \<and> prisma_conversation (prisma w) (arg_conversation a) \<noteq> None \<longrightarrow>
       (\<exists>m w'. sendMessage a ctx w = (Inr m, w')
          \<and> messages (prisma w') = messages (prisma w0) @ [m]
          \<and> queue (pubsub w' ! it) =
              (if arg_conversation a_s = arg_conversation a then [m] else [])))"
proof (intro conjI allI impI)
  fix e w'
  assume "sendMessage a ctx w = (Inl e, w')"
  then show "w' = w" by (rule sendMessage_failure)
next
  assume h: "ctx_user ctx = Some u \<and> prisma_exists_user (prisma w) (user_id u)
        \<and> prisma_conversation (prisma w) (arg_conversation a) \<noteq> None"
  then obtain k where k: "prisma_conversation (prisma w) (arg_conversation a) = Some k"
    by auto
  define m where "m = \<lparr>message_id = length (messages (prisma w)), body = arg_body a,
                author = user_id u, message_conversation = arg_conversation a\<rparr>"
  define w' where "w' = \<lparr>prisma = (prisma w)\<lparr>messages := messages (prisma w) @ [m]\<rparr>,
                  pubsub = publish (arg_conversation a) m (pubsub w)\<rparr>"
  have s: "sendMessage a ctx w = (Inr m, w')"
    using sendMessage_success [of ctx u w a k] h k by (simp add: m_def w'_def Let_def)
  have p: "pubsub w' = publish (arg_conversation a) m (pubsub w)"
    by (simp add: w'_def)
  have "messages (prisma w') = messages (prisma w) @ [m]"
    by (simp add: w'_def)
  moreover have "body m = arg_body a \<and> author m = user_id u
      \<and> message_conversation m = arg_conversation a"
    by (simp add: m_def)
  moreover have "length (pubsub w') = length (pubsub w)"
    by (simp add: p publish_length)
  moreover have "\<forall>i < length (pubsub w).
                topic (pubsub w' ! i) = topic (pubsub w ! i)
                \<and> active (pubsub w' ! i) = active (pubsub w ! i)
                \<and> queue (pubsub w' ! i) =
                    (if active (pubsub w ! i) \<and> topic (pubsub w ! i) = arg_conversation a
                     then queue (pubsub w ! i) @ [m] else queue (pubsub w ! i))"
  proof (intro allI impI)
    fix i
    assume i: "i < length (pubsub w)"
    show "topic (pubsub w' ! i) = topic (pubsub w ! i)
                \<and> active (pubsub w' ! i) = active (pubsub w ! i)
                \<and> queue (pubsub w' ! i) =
                    (if active (pubsub w ! i) \<and> topic (pubsub w ! i) = arg_conversation a
                     then queue (pubsub w ! i) @ [m] else queue (pubsub w ! i))"
      unfolding p using publish_nth [OF i, of "arg_conversation a" m] by simp
  qed
  ultimately show "\<exists>m w'. sendMessage a ctx w = (Inr m, w')
          \<and> messages (prisma w') = messages (prisma w) @ [m]
          \<and> body m = arg_body a \<and> author m = user_id u
          \<and> message_conversation m = arg_conversation a
          \<and> pubsub w' = publish (arg_conversation a) m (pubsub w)
          \<and> length (pubsub w') = length (pubsub w)
          \<and> (\<forall>i < length (pubsub w).
                topic (pubsub w' ! i) = topic (pubsub w ! i)
                \<and> active (pubsub w' ! i) = active (pubsub w ! i)
                \<and> queue (pubsub w' ! i) =
                    (if active (pubsub w ! i) \<and> topic (pubsub w ! i) = arg_conversation a
                     then queue (pubsub w ! i) @ [m] else queue (pubsub w ! i)))"
    using s p by blast
next
  show "\<exists>it1 w1. subscribe a_s ctx_s w0 = (Inr it1, w1)
          \<and> it1 = length (pubsub w0) \<and> prisma w1 = prisma w0
          \<and> length (pubsub w1) = Suc (length (pubsub w0))
          \<and> topic (pubsub w1 ! it1) = arg_conversation a_s
          \<and> active (pubsub w1 ! it1) \<and> queue (pubsub w1 ! it1) = []
          \<and> (\<forall>i < length (pubsub w0). pubsub w1 ! i = pubsub w0 ! i)"
    by (simp add: subscribe_registers nth_append)
next
  assume h: "subscribe a_s ctx_s w0 = (Inr it, w) \<and> ctx_user ctx = Some u
        \<and> prisma_exists_user (prisma w) (user_id u)
        \<and> prisma_conversation (prisma w) (arg_conversation a) \<noteq> None"
  then have sub: "subscribe a_s ctx_s w0 = (Inr it, w)"
    by simp
  from h obtain k where k: "prisma_conversation (prisma w) (arg_conversation a) = Some k"
    by auto
  define m where "m = \<lparr>message_id = length (messages (prisma w)), body = arg_body a,
                author = user_id u, message_conversation = arg_conversation a\<rparr>"
  define w' where "w' = \<lparr>prisma = (prisma w)\<lparr>messages := messages (prisma w) @ [m]\<rparr>,
                  pubsub = publish (arg_conversation a) m (pubsub w)\<rparr>"
  have s: "sendMessage a ctx w = (Inr m, w')"
    using sendMessage_success [of ctx u w a k] h k by (simp add: m_def w'_def Let_def)
  have "messages (prisma w') = messages (prisma w0) @ [m]"
    using subscribe_stream(3) [OF sub] by (simp add: w'_def)
  moreover have "queue (pubsub w' ! it) =
      (if arg_conversation a_s = arg_conversation a then [m] else [])"
    using publish_nth(3) [OF subscribe_stream(2) [OF sub], of "arg_conversation a" m]
      subscribe_stream(4) [OF sub]
    by (simp add: w'_def)
  ultimately show "\<exists>m w'. sendMessage a ctx w = (Inr m, w')
          \<and> messages (prisma w') = messages (prisma w0) @ [m]
          \<and> queue (pubsub w' ! it) =
              (if arg_conversation a_s = arg_conversation a then [m] else [])"
    using s by blast
qed

text \<open>
  bob opens \<open>message(c1)\<close> and sends "hi" to \<open>c1\<close>: his stream holds the message, as does
  the stream that was active on \<open>c1\<close> before; the stream on \<open>c2\<close> and the cancelled one
  hold nothing. Had he opened \<open>message(c2)\<close> instead, his stream would hold nothing.
\<close>

theorem sendMessage_persists_then_publishes_witness:
  "(\<exists>it w m w'. subscribe \<lparr>arg_conversation = ''c1'', arg_body = []\<rparr> \<lparr>ctx_user = Some bob\<rparr>
             sample_world = (Inr it, w)
     \<and> sendMessage \<lparr>arg_conversation = ''c1'', arg_body = ''hi''\<rparr> \<lparr>ctx_user = Some bob\<rparr> w
         = (Inr m, w')
     \<and> messages (prisma w') = [m]
     \<and> queue (pubsub w' ! it) = [m]
     \<and> queue (pubsub w' ! 0) = [m] \<and> queue (pubsub w' ! 1) = [] \<and> queue (pubsub w' ! 2) = [])
   \<and> (\<exists>it w m w'. subscribe \<lparr>arg_conversation = ''c2'', arg_body = []\<rparr> \<lparr>ctx_user = Some bob\<rparr>
             sample_world = (Inr it, w)
     \<and> sendMessage \<lparr>arg_conversation = ''c1'', arg_body = ''hi''\<rparr> \<lparr>ctx_user = Some bob\<rparr> w
         = (Inr m, w')
     \<and> queue (pubsub w' ! it) = [])"
proof -
  have part: "\<exists>it w m w'. subscribe \<lparr>arg_conversation = T, arg_body = []\<rparr> \<lparr>ctx_user = Some bob\<rparr>
             sample_world = (Inr it, w)
     \<and> sendMessage \<lparr>arg_conversation = ''c1'', arg_body = ''hi''\<rparr> \<lparr>ctx_user = Some bob\<rparr> w
         = (Inr m, w')
     \<and> messages (prisma w') = [m]
     \<and> queue (pubsub w' ! it) = (if T = ''c1'' then [m] else [])
     \<and> queue (pubsub w' ! 0) = [m] \<and> queue (pubsub w' ! 1) = [] \<and> queue (pubsub w' ! 2) = []"
    for T
  proof -
    define w where "w = sample_world\<lparr>pubsub := pubsub sample_world
        @ [\<lparr>topic = T, active = True, queue = []\<rparr>]\<rparr>"
    have sub: "subscribe \<lparr>arg_conversation = T, arg_body = []\<rparr> \<lparr>ctx_user = Some bob\<rparr>
        sample_world = (Inr 3, w)"
      by (simp add: subscribe_registers w_def) (simp add: sample_world_def)
    have e: "prisma_exists_user (prisma w) (user_id bob)"
      by (simp add: w_def sample_world_def sample_exists_user bob_def)
    have c: "prisma_conversation (prisma w) ''c1'' \<noteq> None"
      by (simp add: w_def prisma_conversation_def sample_world_def sample_db_def)
    have l: "length (pubsub w) = 4" "messages (prisma w) = []"
      "messages (prisma sample_world) = []"
      "pubsub w ! 0 = \<lparr>topic = ''c1'', active = True, queue = []\<rparr>"
      "pubsub w ! 1 = \<lparr>topic = ''c2'', active = True, queue = []\<rparr>"
      "pubsub w ! 2 = \<lparr>topic = ''c1'', active = False, queue = []\<rparr>"
      by (simp_all add: w_def sample_world_def sample_db_def)
    note inst = sendMessage_persists_then_publishes
      [of "\<lparr>arg_conversation = ''c1'', arg_body = ''hi''\<rparr>" "\<lparr>ctx_user = Some bob\<rparr>" w bob
        "\<lparr>arg_conversation = T, arg_body = []\<rparr>" "\<lparr>ctx_user = Some bob\<rparr>" sample_world 3]
    from inst e c
    obtain m w' where s: "sendMessage \<lparr>arg_conversation = ''c1'', arg_body = ''hi''\<rparr>
          \<lparr>ctx_user = Some bob\<rparr> w = (Inr m, w')"
      and q: "\<forall>i < length (pubsub w).
                topic (pubsub w' ! i) = topic (pubsub w ! i)
                \<and> active (pubsub w' ! i) = active (pubsub w ! i)
                \<and> queue (pubsub w' ! i) =
                    (if active (pubsub w ! i)
                        \<and> topic (pubsub w ! i)
                            = arg_conversation \<lparr>arg_conversation = ''c1'', arg_body = ''hi''\<rparr>
                     then queue (pubsub w ! i) @ [m]
                     else queue (pubsub w ! i))"
      by auto
    from inst sub e c
    obtain m2 w2 where s2: "sendMessage \<lparr>arg_conversation = ''c1'', arg_body = ''hi''\<rparr>
          \<lparr>ctx_user = Some bob\<rparr> w = (Inr m2, w2)"
      and p2: "messages (prisma w2) = messages (prisma sample_world) @ [m2]"
      and q2: "queue (pubsub w2 ! 3) =
          (if arg_conversation \<lparr>arg_conversation = T, arg_body = []\<rparr>
              = arg_conversation \<lparr>arg_conversation = ''c1'', arg_body = ''hi''\<rparr>
           then [m2] else [])"
      by auto
    from s s2 have eq: "m2 = m" "w2 = w'"
      by simp_all
    have "queue (pubsub w' ! 0) = [m]"
      using q [rule_format, of 0] l by simp
    moreover have "queue (pubsub w' ! 1) = []"
      using q [rule_format, of 1] l by simp
    moreover have "queue (pubsub w' ! 2) = []"
      using q [rule_format, of 2] l by simp
    moreover have "messages (prisma w') = [m]"
      using p2 eq l by simp
    moreover have "queue (pubsub w' ! 3) = (if T = ''c1'' then [m] else [])"
      using q2 eq by simp
    ultimately show ?thesis
      using sub s by blast
  qed
  from part [of "''c1''"] part [of "''c2''"] show ?thesis
    by (simp, blast)
qed

section \<open>The Date scalar: properties\<close>

lemma int_text_2015: "int_text 2015 = ''2015''"
  by (simp add: int_text_def digits.simps)

text \<open>In \<open>src/index.ts\<close>, \<open>serialize\<close> of a string fails: a string has no \<open>getTime\<close>.\<close>

lemma serialize_index_string: "serialize_index (JString s) = Inl TypeError"
  by (simp add: serialize_index_def)

text \<open>
  Claim C8. \<open>serialize\<close> maps a \<open>Date\<close> to its integer epoch value, \<open>parseValue\<close> maps
  that integer back to the same instant, and \<open>serialize\<close> of a string returns the string.
  The time value of a valid \<open>Date\<close> is at most 8.64e15 in size.
\<close>

theorem Date_roundtrip:
  assumes "\<bar>t\<bar> \<le> 8640000000000000"
  shows "serialize (JDate (Some t)) = Inr (JNumber t)
    \<and> parseValue date_parse (JNumber t) = JDate (Some t)
    \<and> serialize (JString s) = Inr (JString s)"
  using assms by (simp add: parseValue_def time_clip_def)

theorem Date_roundtrip_witness:
  "serialize (JDate (Some 1500000000000)) = Inr (JNumber 1500000000000)
    \<and> parseValue (\<lambda>s. None) (JNumber 1500000000000) = JDate (Some 1500000000000)
    \<and> serialize (JString ''2017-07-14'') = Inr (JString ''2017-07-14'')"
  using Date_roundtrip [of 1500000000000 "\<lambda>s. None" "''2017-07-14''"] by simp

text \<open>
  Claim C10. \<open>parseLiteral\<close> returns \<open>null\<close> for every literal whose kind is not INT; for
  an INT literal it gives the \<open>Date\<close> constructed from the literal's text, which is what
  \<open>parseValue\<close> gives for that string, not for the number: for an integer n (a valid time
  value), \<open>parseLiteral\<close> of the literal n and \<open>parseValue\<close> of the number n are the same
  instant only if \<open>Date.parse\<close> reads the decimal text of n as n milliseconds.
\<close>

theorem parseLiteral_string_form:
  "(kind_of ast \<noteq> Kind_INT \<longrightarrow> parseLiteral date_parse ast = JNull)
   \<and> parseLiteral date_parse (IntValue v) = new_Date date_parse (JString v)
   \<and> parseLiteral date_parse (IntValue v) = parseValue date_parse (JString v)
   \<and> (\<bar>n\<bar> \<le> 8640000000000000 \<longrightarrow>
        (parseLiteral date_parse (int_literal n) = parseValue date_parse (JNumber n))
          = (date_parse (int_text n) = Some n))"
proof (intro conjI impI)
  show "parseLiteral date_parse ast = JNull" if "kind_of ast \<noteq> Kind_INT"
    using that by (cases ast) simp_all
  show "parseLiteral date_parse (IntValue v) = new_Date date_parse (JString v)"
    by simp
  show "parseLiteral date_parse (IntValue v) = parseValue date_parse (JString v)"
    by (simp add: parseValue_def)
  show "(parseLiteral date_parse (int_literal n) = parseValue date_parse (JNumber n))
          = (date_parse (int_text n) = Some n)" if "\<bar>n\<bar> \<le> 8640000000000000"
    using that
    by (auto simp add: int_literal_def parseValue_def time_clip_def
        split: option.splits if_splits)
qed

text \<open>
  With the ISO reading of a four-digit string as a year, the literal \<open>2015\<close> is the first
  instant of the year 2015, while the number 2015 is 2015 milliseconds after the epoch.
\<close>

theorem parseLiteral_string_form_witness:
  "parseLiteral (\<lambda>s. if s = ''2015'' then Some 1420070400000 else None) (StringValue ''2015'')
       = JNull
   \<and> parseLiteral (\<lambda>s. if s = ''2015'' then Some 1420070400000 else None) (int_literal 2015)
       = JDate (Some 1420070400000)
   \<and> parseValue (\<lambda>s. if s = ''2015'' then Some 1420070400000 else None) (JNumber 2015)
       = JDate (Some 2015)
   \<and> parseLiteral (\<lambda>s. if s = ''2015'' then Some 1420070400000 else None) (int_literal 2015)
       \<noteq> parseValue (\<lambda>s. if s = ''2015'' then Some 1420070400000 else None) (JNumber 2015)"
  using parseLiteral_string_form
    [of "StringValue ''2015''" "\<lambda>s. if s = ''2015'' then Some 1420070400000 else None"
      "''2015''" 2015]
  by (simp add: int_text_2015 int_literal_def parseValue_def time_clip_def)

end
